theory Spec2Isabelle
  imports Main "HOL-Library.Word" "HOL-Library.List_Lexorder" "HOL-Library.Multiset"
begin

section \<open>Bytes, text and the injected primitives\<close>

text \<open>
  An \<open>ArrayBuffer\<close> or \<open>Uint8Array\<close> is a list of bytes. A JavaScript string is
  modelled as a \<open>string\<close> whose characters are its code units; the model covers code
  units up to U+00FF, for which \<open>s.length\<close> is \<open>length s\<close>.
\<close>

type_synonym byte = "8 word"
type_synonym bytes = "byte list"

text \<open>\<open>new TextEncoder().encode(s)\<close>: UTF-8, one byte below U+0080 and two bytes from
  U+0080 to U+00FF.\<close>

definition utf8_unit :: "char \<Rightarrow> bytes" where
  "utf8_unit c =
     (let n = (of_char c :: nat)
      in if n < 128 then [of_nat n] else [of_nat (192 + n div 64), of_nat (128 + n mod 64)])"

definition TextEncoder_encode :: "string \<Rightarrow> bytes" where
  "TextEncoder_encode s = concat (map utf8_unit s)"

text \<open>Modelled from the spec: \<open>concat\<close> of \<open>utils/buffer\<close> (not among the sources) is
  the concatenation of its argument buffers, in order.\<close>

definition concat_bufs :: "bytes list \<Rightarrow> bytes" where
  "concat_bufs bufs = concat bufs"

text \<open>Modelled from the spec: \<open>bufEquals\<close> of \<open>utils/buffer\<close> (not among the sources)
  holds when the two buffers are equal as byte strings.\<close>

definition bufEquals :: "bytes \<Rightarrow> bytes \<Rightarrow> bool" where
  "bufEquals a b = (a = b)"

text \<open>Modelled from the spec: \<open>fromHex\<close> of \<open>utils/buffer\<close> (not among the sources) is
  the hex codec: two hexadecimal digits give one byte.\<close>

definition hexDigit :: "char \<Rightarrow> nat" where
  "hexDigit c =
     (let n = (of_char c :: nat)
      in if 48 \<le> n \<and> n \<le> 57 then n - 48
         else if 97 \<le> n \<and> n \<le> 102 then n - 87
         else if 65 \<le> n \<and> n \<le> 70 then n - 55
         else 0)"

fun fromHex :: "string \<Rightarrow> bytes" where
  "fromHex (hi # lo # rest) = of_nat (16 * hexDigit hi + hexDigit lo) # fromHex rest"
| "fromHex _ = []"

text \<open>\<open>hash\<close>: SHA-256 of the buffer. The digest function of \<open>@noble/hashes\<close> is a
  parameter \<open>sha256\<close> of every function that hashes.\<close>

definition hash :: "(bytes \<Rightarrow> bytes) \<Rightarrow> bytes \<Rightarrow> bytes" where
  "hash sha256 data = sha256 data"

section \<open>Hash trees\<close>

text \<open>A label, a leaf's contents and a pruned digest are byte strings: an
  \<open>ArrayBuffer\<close>, or a \<open>Uint8Array\<close> that spans its whole buffer, so that its \<open>buffer\<close>
  holds the same bytes. A view into a larger buffer is outside these trees.\<close>

datatype HashTree =
    Empty
  | Fork HashTree HashTree
  | Labeled bytes HashTree
  | Leaf bytes
  | Pruned bytes

text \<open>\<open>domain_sep\<close>: \<open>new Uint8Array([s.length])\<close> keeps the length modulo 256.\<close>

definition domain_sep :: "string \<Rightarrow> bytes" where
  "domain_sep s =
     (let len = [word_of_nat (length s) :: byte];
          str = TextEncoder_encode s
      in concat_bufs [len, str])"

fun reconstruct :: "(bytes \<Rightarrow> bytes) \<Rightarrow> HashTree \<Rightarrow> bytes" where
  "reconstruct sha256 Empty = hash sha256 (domain_sep ''ic-hashtree-empty'')"
| "reconstruct sha256 (Pruned d) = d"
| "reconstruct sha256 (Leaf b) = hash sha256 (concat_bufs [domain_sep ''ic-hashtree-leaf'', b])"
| "reconstruct sha256 (Labeled l sub) =
     hash sha256
       (concat_bufs [domain_sep ''ic-hashtree-labeled'', l, reconstruct sha256 sub])"
| "reconstruct sha256 (Fork left right) =
     hash sha256
       (concat_bufs
          [domain_sep ''ic-hashtree-fork'', reconstruct sha256 left, reconstruct sha256 right])"

subsection \<open>Label search and path lookup\<close>

text \<open>\<open>isBufferGreaterThan\<close>: the loop runs over the indices of \<open>a\<close> and returns
  \<open>true\<close> at the first index where \<open>a8[i] > b8[i]\<close>. Past the end of \<open>b\<close> the read
  \<open>b8[i]\<close> is \<open>undefined\<close> and the comparison is false.\<close>

fun isBufferGreaterThan :: "bytes \<Rightarrow> bytes \<Rightarrow> bool" where
  "isBufferGreaterThan [] b = False"
| "isBufferGreaterThan (x # a) [] = isBufferGreaterThan a []"
| "isBufferGreaterThan (x # a) (y # b) = (if x > y then True else isBufferGreaterThan a b)"

text \<open>The spec's order on labels, for comparison with \<open>isBufferGreaterThan\<close>: unsigned
  byte-lexicographic over the common length, ties broken by length.\<close>

fun lexGreaterSpec :: "bytes \<Rightarrow> bytes \<Rightarrow> bool" where
  "lexGreaterSpec [] b = False"
| "lexGreaterSpec (x # a) [] = True"
| "lexGreaterSpec (x # a) (y # b) = (if x > y then True else if x < y then False else lexGreaterSpec a b)"

datatype LookupValue = Buffer bytes | Tree HashTree

datatype LookupResult = Unknown | Absent | Found LookupValue

text \<open>\<open>LabelLookupResult\<close>: the three lookup statuses and the two label statuses.
  \<open>find_label\<close> only ever finds a subtree.\<close>

datatype LabelLookupResult = LUnknown | LAbsent | LFound HashTree | Greater | Less

fun find_label :: "bytes \<Rightarrow> HashTree \<Rightarrow> LabelLookupResult" where
  "find_label label (Labeled l t) =
     (if isBufferGreaterThan label l then Greater
      else if bufEquals label l then LFound t
      else Less)"
| "find_label label (Fork l r) =
     (case find_label label l of
        Greater \<Rightarrow>
          (case find_label label r of
             Less \<Rightarrow> LAbsent
           | rightLookupResult \<Rightarrow> rightLookupResult)
      | LUnknown \<Rightarrow>
          (case find_label label r of
             Less \<Rightarrow> LUnknown
           | rightLookupResult \<Rightarrow> rightLookupResult)
      | leftLookupResult \<Rightarrow> leftLookupResult)"
| "find_label label (Pruned h) = LUnknown"
| "find_label label Empty = LAbsent"
| "find_label label (Leaf b) = LAbsent"

text \<open>A path segment is a buffer or a string; a string is UTF-8 encoded first.\<close>

datatype PathSeg = Buf bytes | Str string

fun label_of :: "PathSeg \<Rightarrow> bytes" where
  "label_of (Str s) = TextEncoder_encode s"
| "label_of (Buf b) = b"

text \<open>\<open>lookup_path\<close>. The guard \<open>!tree[1]\<close> of the leaf case never fires: a buffer is
  an object, and every object is truthy.\<close>

fun lookup_path :: "PathSeg list \<Rightarrow> HashTree \<Rightarrow> LookupResult" where
  "lookup_path [] (Leaf b) = Found (Buffer b)"
| "lookup_path [] t = Found (Tree t)"
| "lookup_path (seg # rest) t =
     (case find_label (label_of seg) t of
        LFound sub \<Rightarrow> lookup_path rest sub
      | Greater \<Rightarrow> Absent
      | Less \<Rightarrow> Absent
      | LUnknown \<Rightarrow> Unknown
      | LAbsent \<Rightarrow> Absent)"

fun lookupResultToBuffer :: "LookupResult \<Rightarrow> bytes option" where
  "lookupResultToBuffer (Found (Buffer b)) = Some b"
| "lookupResultToBuffer _ = None"

section \<open>DER unwrapping\<close>

definition DER_PREFIX :: bytes where
  "DER_PREFIX =
     fromHex ''308182301d060d2b0601040182dc7c0503010201060c2b0601040182dc7c05030201036100''"

definition KEY_LENGTH :: nat where
  "KEY_LENGTH = 96"

text \<open>The two \<open>TypeError\<close>s of \<open>extractDER\<close>, with what their messages carry: the
  expected length, and the prefix that was found.\<close>

datatype DerError = DerWrongLength nat | DerWrongPrefix bytes

definition extractDER :: "bytes \<Rightarrow> DerError + bytes" where
  "extractDER buf =
     (let expectedLength = length DER_PREFIX + KEY_LENGTH
      in if length buf \<noteq> expectedLength then Inl (DerWrongLength expectedLength)
         else let prefix = take (length DER_PREFIX) buf
              in if \<not> bufEquals prefix DER_PREFIX then Inl (DerWrongPrefix prefix)
                 else Inr (drop (length DER_PREFIX) buf))"

section \<open>Certificates\<close>

text \<open>A JavaScript number, as far as the certificate's times need it: a whole number,
  one of the two infinities, or NaN.\<close>

datatype number = Num int | Infinity | MinusInfinity | NaN

text \<open>\<open>x * k\<close> for a positive whole constant \<open>k\<close>.\<close>

fun num_times :: "number \<Rightarrow> int \<Rightarrow> number" where
  "num_times (Num x) k = Num (x * k)"
| "num_times x k = x"

text \<open>\<open>a - x\<close> for a whole number \<open>a\<close>.\<close>

fun num_minus :: "int \<Rightarrow> number \<Rightarrow> number" where
  "num_minus a (Num x) = Num (a - x)"
| "num_minus a Infinity = MinusInfinity"
| "num_minus a MinusInfinity = Infinity"
| "num_minus a NaN = NaN"

text \<open>\<open>a < b\<close>; every comparison with NaN is false.\<close>

fun num_less :: "number \<Rightarrow> number \<Rightarrow> bool" where
  "num_less (Num a) (Num b) = (a < b)"
| "num_less NaN b = False"
| "num_less a NaN = False"
| "num_less MinusInfinity MinusInfinity = False"
| "num_less MinusInfinity b = True"
| "num_less a MinusInfinity = False"
| "num_less Infinity b = False"
| "num_less a Infinity = True"

text \<open>A \<open>Date\<close> holds a whole number of milliseconds of at most 8.64e15 in absolute
  value, or is invalid; \<open>getTime\<close> of an invalid date is NaN.\<close>

datatype Date = Date int | InvalidDate

fun getTime :: "Date \<Rightarrow> number" where
  "getTime (Date ms) = Num ms"
| "getTime InvalidDate = NaN"

record Delegation =
  subnet_id :: bytes
  certificate :: bytes

record Cert =
  tree :: HashTree
  signature :: bytes
  delegation :: "Delegation option"

text \<open>\<open>VerifyFunc\<close>: \<open>None\<close> when the function throws or its promise rejects.\<close>

type_synonym VerifyFunc = "bytes \<Rightarrow> bytes \<Rightarrow> bytes \<Rightarrow> bool option"

text \<open>What the certificate code takes from outside: SHA-256, the CBOR decoder (at the
  two types it is used at; \<open>None\<close> when it throws), the default BLS verifier, the clock
  in milliseconds, the order on principals, and \<open>decodeTime\<close> of \<open>utils/leb\<close>, which
  gives the \<open>Date\<close> of the certificate's time (\<open>None\<close> when it throws). A principal is
  its byte string.\<close>

record env =
  sha :: "bytes \<Rightarrow> bytes"
  cborDecodeCert :: "bytes \<Rightarrow> Cert option"
  cborDecodeRanges :: "bytes \<Rightarrow> (bytes \<times> bytes) list option"
  bls_blsVerify :: VerifyFunc
  dateNow :: int
  ltEq :: "bytes \<Rightarrow> bytes \<Rightarrow> bool"
  gtEq :: "bytes \<Rightarrow> bytes \<Rightarrow> bool"
  decodeTime :: "bytes \<Rightarrow> Date option"

record CreateCertificateOptions =
  opt_certificate :: bytes
  opt_rootKey :: bytes
  opt_canisterId :: bytes
  opt_blsVerify :: "VerifyFunc option"
  opt_maxAgeInMinutes :: "number option"
  opt_disableTimeVerification :: "bool option"

record Certificate =
  cert :: Cert
  rootKey :: bytes
  canisterId :: bytes
  blsVerify :: VerifyFunc
  maxAgeInMinutes :: number
  disableTimeVerification :: bool

datatype VerificationReason =
    NoTime
  | SignedInPast
  | SignedInFuture
  | SignatureFailed
  | NestedDelegation
  | CanisterNotInRange

datatype error =
    CertificateVerificationError VerificationReason
  | TypeError DerError
  | NoSubnetKey
  | NoCanisterRanges
  | DecodeFailed
  | DecodeTimeFailed

text \<open>\<open>createUnverified\<close> with the constructor: the defaults are 5 minutes and
  \<open>false\<close>, and the certificate bytes are decoded.\<close>

definition createUnverified :: "env \<Rightarrow> CreateCertificateOptions \<Rightarrow> error + Certificate" where
  "createUnverified env options =
     (let verifyFunc = (case opt_blsVerify options of None \<Rightarrow> bls_blsVerify env | Some f \<Rightarrow> f)
      in case cborDecodeCert env (opt_certificate options) of
           None \<Rightarrow> Inl DecodeFailed
         | Some c \<Rightarrow>
             Inr \<lparr> cert = c,
                   rootKey = opt_rootKey options,
                   canisterId = opt_canisterId options,
                   blsVerify = verifyFunc,
                   maxAgeInMinutes =
                     (case opt_maxAgeInMinutes options of None \<Rightarrow> Num 5 | Some m \<Rightarrow> m),
                   disableTimeVerification =
                     (case opt_disableTimeVerification options of None \<Rightarrow> False | Some d \<Rightarrow> d) \<rparr>)"

definition lookup :: "Certificate \<Rightarrow> PathSeg list \<Rightarrow> LookupResult" where
  "lookup this path = lookup_path path (tree (cert this))"

text \<open>Modelled from the spec: the management canister id (a constant of \<open>agent\<close>, not
  among the sources) is the principal of byte length 0.\<close>

definition isManagementCanister :: "bytes \<Rightarrow> bool" where
  "isManagementCanister cid = (cid = [])"

definition check_canister_ranges :: "env \<Rightarrow> bytes \<Rightarrow> bytes \<Rightarrow> HashTree \<Rightarrow> error + bool" where
  "check_canister_ranges env cid subnetId t =
     (case lookup_path [Str ''subnet'', Buf subnetId, Str ''canister_ranges''] t of
        Found (Buffer v) \<Rightarrow>
          (case cborDecodeRanges env v of
             None \<Rightarrow> Inl DecodeFailed
           | Some ranges \<Rightarrow>
               Inr (list_ex (\<lambda>r. ltEq env (fst r) cid \<and> gtEq env (snd r) cid) ranges))
      | _ \<Rightarrow> Inl NoCanisterRanges)"

function (sequential) verify :: "env \<Rightarrow> Certificate \<Rightarrow> error + unit"
  and checkDelegationAndGetKey :: "env \<Rightarrow> Certificate \<Rightarrow> Delegation option \<Rightarrow> error + bytes"
where
  "verify env this =
     (let rootHash = reconstruct (sha env) (tree (cert this))
      in case checkDelegationAndGetKey env this (delegation (cert this)) of
           Inl e \<Rightarrow> Inl e
         | Inr derKey \<Rightarrow>
             (let sig = signature (cert this)
              in case extractDER derKey of
                   Inl e \<Rightarrow> Inl (TypeError e)
                 | Inr key \<Rightarrow>
                     (let msg = concat_bufs [domain_sep ''ic-state-root'', rootHash]
                      in case lookupResultToBuffer (lookup this [Str ''time'']) of
                           None \<Rightarrow> Inl (CertificateVerificationError NoTime)
                         | Some lookupTime \<Rightarrow>
                             (case (if \<not> disableTimeVerification this
                                    then
                                      (let FIVE_MINUTES_IN_MSEC = 5 * 60 * 1000;
                                           MAX_AGE_IN_MSEC =
                                             num_times (num_times (maxAgeInMinutes this) 60) 1000;
                                           now = dateNow env;
                                           earliestCertificateTime = num_minus now MAX_AGE_IN_MSEC;
                                           fiveMinutesFromNow = Num (now + FIVE_MINUTES_IN_MSEC)
                                       in case decodeTime env lookupTime of
                                            None \<Rightarrow> Inl DecodeTimeFailed
                                          | Some certTime \<Rightarrow>
                                              if num_less (getTime certTime) earliestCertificateTime
                                              then Inl (CertificateVerificationError SignedInPast)
                                              else if num_less fiveMinutesFromNow (getTime certTime)
                                              then Inl (CertificateVerificationError SignedInFuture)
                                              else Inr ())
                                    else Inr ()) of
                                Inl e \<Rightarrow> Inl e
                              | Inr u \<Rightarrow>
                                  (let sigVer = (case blsVerify this key sig msg of
                                                   None \<Rightarrow> False
                                                 | Some b \<Rightarrow> b)
                                   in if \<not> sigVer
                                      then Inl (CertificateVerificationError SignatureFailed)
                                      else Inr ())))))"
| "checkDelegationAndGetKey env this None = Inr (rootKey this)"
| "checkDelegationAndGetKey env this (Some d) =
     (case createUnverified env
             \<lparr> opt_certificate = certificate d,
               opt_rootKey = rootKey this,
               opt_canisterId = canisterId this,
               opt_blsVerify = Some (blsVerify this),
               opt_maxAgeInMinutes = Some Infinity,
               opt_disableTimeVerification = None \<rparr> of
        Inl e \<Rightarrow> Inl e
      | Inr inner \<Rightarrow>
          if delegation (cert inner) \<noteq> None
          then Inl (CertificateVerificationError NestedDelegation)
          else
            (case verify env inner of
               Inl e \<Rightarrow> Inl e
             | Inr u \<Rightarrow>
                 (case (if \<not> isManagementCanister (canisterId this)
                        then (case check_canister_ranges env (canisterId this) (subnet_id d)
                                     (tree (cert inner)) of
                                Inl e \<Rightarrow> Inl e
                              | Inr canisterInRange \<Rightarrow>
                                  if \<not> canisterInRange
                                  then Inl (CertificateVerificationError CanisterNotInRange)
                                  else Inr ())
                        else Inr ()) of
                    Inl e \<Rightarrow> Inl e
                  | Inr u' \<Rightarrow>
                      (case lookupResultToBuffer
                              (lookup inner [Str ''subnet'', Buf (subnet_id d), Str ''public_key'']) of
                         None \<Rightarrow> Inl NoSubnetKey
                       | Some publicKeyLookup \<Rightarrow> Inr publicKeyLookup))))"
  by pat_completeness auto
termination
  by (relation "measure (\<lambda>x. case x of
                   Inl (env, this) \<Rightarrow> (if delegation (cert this) = None then 1 else 3)
                 | Inr (env, this, d) \<Rightarrow> (if d = None then 0 else 2))")
     auto

subsection \<open>Example certificates\<close>

definition example_key :: bytes where
  "example_key = DER_PREFIX @ replicate 96 1"

text \<open>For the examples, a \<open>decodeTime\<close>: it reads an unsigned LEB128 number of
  nanoseconds, failing on a buffer that ends before the last byte of the number, and
  gives the date of its whole milliseconds, invalid beyond the range of dates.\<close>

fun example_lebDecode :: "bytes \<Rightarrow> nat option" where
  "example_lebDecode [] = None"
| "example_lebDecode (b # bs) =
     (if unat b < 128 then Some (unat b)
      else (case example_lebDecode bs of
              None \<Rightarrow> None
            | Some r \<Rightarrow> Some ((unat b - 128) + 128 * r)))"

definition example_decodeTime :: "bytes \<Rightarrow> Date option" where
  "example_decodeTime buf =
     (case example_lebDecode buf of
        None \<Rightarrow> None
      | Some ns \<Rightarrow>
          (let ms = ns div 1000000
           in Some (if ms > 8640000000000000 then InvalidDate else Date (int ms))))"

text \<open>An environment whose clock reads 1000000 ms, whose BLS verifier accepts, and
  whose decoder reads every byte string as a certificate that carries a delegation.\<close>

definition example_env :: env where
  "example_env =
     \<lparr> sha = (\<lambda>x. x),
       cborDecodeCert =
         (\<lambda>b. Some \<lparr> tree = Empty, signature = [],
                      delegation = Some \<lparr> subnet_id = [], certificate = [] \<rparr> \<rparr>),
       cborDecodeRanges = (\<lambda>b. None),
       bls_blsVerify = (\<lambda>pk sig msg. Some True),
       dateNow = 1000000,
       ltEq = (\<lambda>a b. True),
       gtEq = (\<lambda>a b. True),
       decodeTime = example_decodeTime \<rparr>"

text \<open>A certificate without delegation, verified against \<open>key\<close>, over the tree
  \<open>t\<close>.\<close>

definition example_certificate :: "bytes \<Rightarrow> HashTree \<Rightarrow> bool \<Rightarrow> Certificate" where
  "example_certificate key t disable =
     \<lparr> cert = \<lparr> tree = t, signature = [], delegation = None \<rparr>,
       rootKey = key,
       canisterId = [],
       blsVerify = (\<lambda>pk sig msg. Some True),
       maxAgeInMinutes = Num 5,
       disableTimeVerification = disable \<rparr>"


declare verify.simps [simp del]

section \<open>Representation-independent hashing\<close>

text \<open>
  The values \<open>hashValue\<close> can meet. A primitive is one of the first eight
  constructors. An object is described by what the tests of \<open>hashValue\<close> read from it,
  and one object can pass several tests:
  \<^item> \<open>Some v\<close> first when it is an instance of \<open>borc.Tagged\<close> whose \<open>value\<close> is \<open>v\<close>;
  \<^item> \<open>Some b\<close> second when it is an \<open>ArrayBuffer\<close> or a view, with bytes \<open>b\<close>;
  \<^item> \<open>Some xs\<close> third when \<open>Array.isArray\<close> holds, with elements \<open>xs\<close>;
  \<^item> \<open>Some p\<close> fourth when \<open>_isPrincipal\<close> is truthy and \<open>toUint8Array()\<close> is \<open>p\<close>;
  \<^item> \<open>Some v\<close> fifth when \<open>toHash\<close> is a function and \<open>toHash()\<close> returns \<open>v\<close>;
  \<^item> last, its \<open>Object.entries\<close>, in their order.
  A number or big integer is a natural number, the integers the LEB128 encoding takes.
\<close>

datatype jsvalue =
    JUndefined
  | JNull
  | JBoolean bool
  | JSymbol
  | JFunction
  | JString string
  | JNumber nat
  | JBigInt nat
  | JObject "jsvalue option" "bytes option" "jsvalue list option" "bytes option"
      "jsvalue option" "(string \<times> jsvalue) list"

text \<open>What \<open>hashValue\<close> throws: the unsupported-type error with the value it carries,
  the \<open>TypeError\<close> of \<open>Object.entries(null)\<close>, and the \<open>TypeError\<close> of converting a
  symbol to a string, which the template literal of the unsupported-type message raises
  before that error is built.\<close>

datatype hash_error = UnsupportedType jsvalue | EntriesOfNull | SymbolToString

text \<open>Modelled from the spec: \<open>lebEncode\<close> of \<open>@dfinity/candid\<close> (not among the
  sources) is the minimal unsigned LEB128 encoding.\<close>

fun lebEncode :: "nat \<Rightarrow> bytes" where
  "lebEncode n =
     (if n < 128 then [of_nat n] else of_nat (n mod 128 + 128) # lebEncode (n div 128))"

declare lebEncode.simps [simp del]

text \<open>Modelled from the spec: \<open>compare\<close> of \<open>utils/buffer\<close> (not among the sources)
  orders buffers in unsigned byte-lexicographic order; its sign is the order.\<close>

fun compare :: "bytes \<Rightarrow> bytes \<Rightarrow> int" where
  "compare [] [] = 0"
| "compare [] (y # b) = - 1"
| "compare (x # a) [] = 1"
| "compare (x # a) (y # b) = (if x < y then - 1 else if x > y then 1 else compare a b)"

text \<open>\<open>Array.prototype.sort\<close> with a comparator: a stable sort, here by insertion.\<close>

fun insert_sorted :: "('a \<Rightarrow> 'a \<Rightarrow> int) \<Rightarrow> 'a \<Rightarrow> 'a list \<Rightarrow> 'a list" where
  "insert_sorted cmp x [] = [x]"
| "insert_sorted cmp x (y # ys) =
     (if cmp x y \<le> 0 then x # y # ys else y # insert_sorted cmp x ys)"

definition array_sort :: "('a \<Rightarrow> 'a \<Rightarrow> int) \<Rightarrow> 'a list \<Rightarrow> 'a list" where
  "array_sort cmp xs = foldr (insert_sorted cmp) xs []"

definition hashString :: "(bytes \<Rightarrow> bytes) \<Rightarrow> string \<Rightarrow> bytes" where
  "hashString sha256 s = (let encoded = TextEncoder_encode s in hash sha256 encoded)"

text \<open>\<open>hashValue\<close> and \<open>hashOfMap\<close>. \<open>hashValues\<close> is \<open>value.map(hashValue)\<close> and
  \<open>hashEntries\<close> is the \<open>filter\<close> and \<open>map\<close> over the entries in \<open>hashOfMap\<close>
  (an entry whose value is \<open>undefined\<close> is skipped); both stop at the first element
  whose hashing throws.\<close>

fun hashValue :: "(bytes \<Rightarrow> bytes) \<Rightarrow> jsvalue \<Rightarrow> hash_error + bytes"
  and hashValues :: "(bytes \<Rightarrow> bytes) \<Rightarrow> jsvalue list \<Rightarrow> hash_error + bytes list"
  and hashEntries ::
    "(bytes \<Rightarrow> bytes) \<Rightarrow> (string \<times> jsvalue) list \<Rightarrow> hash_error + (bytes \<times> bytes) list"
  and hashOfMap :: "(bytes \<Rightarrow> bytes) \<Rightarrow> (string \<times> jsvalue) list \<Rightarrow> hash_error + bytes"
where
  "hashValue sha256 (JObject (Some inner) bf el pr th en) = hashValue sha256 inner"
| "hashValue sha256 (JString s) = Inr (hashString sha256 s)"
| "hashValue sha256 (JNumber n) = Inr (hash sha256 (lebEncode n))"
| "hashValue sha256 (JObject None (Some b) el pr th en) = Inr (hash sha256 b)"
| "hashValue sha256 (JObject None None (Some vals) pr th en) =
     (case hashValues sha256 vals of
        Inl e \<Rightarrow> Inl e
      | Inr hs \<Rightarrow> Inr (hash sha256 (concat_bufs hs)))"
| "hashValue sha256 (JObject None None None (Some p) th en) = Inr (hash sha256 p)"
| "hashValue sha256 (JObject None None None None (Some projection) en) =
     hashValue sha256 projection"
| "hashValue sha256 (JObject None None None None None en) = hashOfMap sha256 en"
| "hashValue sha256 JNull = Inl EntriesOfNull"
| "hashValue sha256 (JBigInt n) = Inr (hash sha256 (lebEncode n))"
| "hashValue sha256 JSymbol = Inl SymbolToString"
| "hashValue sha256 v = Inl (UnsupportedType v)"
| "hashValues sha256 [] = Inr []"
| "hashValues sha256 (v # vs) =
     (case hashValue sha256 v of
        Inl e \<Rightarrow> Inl e
      | Inr h \<Rightarrow> (case hashValues sha256 vs of Inl e \<Rightarrow> Inl e | Inr hs \<Rightarrow> Inr (h # hs)))"
| "hashEntries sha256 [] = Inr []"
| "hashEntries sha256 ((key, v) # rest) =
     (if v = JUndefined then hashEntries sha256 rest
      else
        (let hashedKey = hashString sha256 key
         in case hashValue sha256 v of
              Inl e \<Rightarrow> Inl e
            | Inr hashedValue \<Rightarrow>
                (case hashEntries sha256 rest of
                   Inl e \<Rightarrow> Inl e
                 | Inr hashed \<Rightarrow> Inr ((hashedKey, hashedValue) # hashed))))"
| "hashOfMap sha256 en =
     (case hashEntries sha256 en of
        Inl e \<Rightarrow> Inl e
      | Inr hashed \<Rightarrow>
          (let sorted = array_sort (\<lambda>(k1, v1) (k2, v2). compare k1 k2) hashed;
               concatenated = concat_bufs (map (\<lambda>(k, v). concat_bufs [k, v]) sorted)
           in Inr (hash sha256 concatenated)))"

definition requestIdOf :: "(bytes \<Rightarrow> bytes) \<Rightarrow> (string \<times> jsvalue) list \<Rightarrow> hash_error + bytes" where
  "requestIdOf sha256 request = hashOfMap sha256 request"



section \<open>Polling\<close>



text \<open>What a poll throws: an error of the agent or of the strategy (opaque), the
  missing root key, a certificate that does not verify, the rejection with its code
  (the first byte of \<open>reject_code\<close>, if any) and its text, the status done, and the
  final \<open>unreachable\<close>.\<close>

datatype poll_error =
    AgentFailure nat
  | StrategyFailure nat
  | RootKeyNotInitialized
  | CertificateFailure error
  | CallRejected "byte option" string
  | CallDoneWithoutReply
  | Unreachable







subsection \<open>A scripted agent\<close>







subsection \<open>An example poll\<close>







section \<open>Properties of the hash tree\<close>

lemma DER_PREFIX_bytes:
  "DER_PREFIX =
     [0x30, 0x81, 0x82, 0x30, 0x1d, 0x06, 0x0d, 0x2b, 0x06, 0x01, 0x04, 0x01, 0x82, 0xdc,
      0x7c, 0x05, 0x03, 0x01, 0x02, 0x01, 0x06, 0x0c, 0x2b, 0x06, 0x01, 0x04, 0x01, 0x82,
      0xdc, 0x7c, 0x05, 0x03, 0x02, 0x01, 0x03, 0x61, 0x00]"
  by (simp add: DER_PREFIX_def hexDigit_def)

lemma length_DER_PREFIX: "length DER_PREFIX = 37"
  by (simp add: DER_PREFIX_bytes)

lemma domain_sep_tags:
  "domain_sep ''ic-hashtree-empty'' =
     [17, 105, 99, 45, 104, 97, 115, 104, 116, 114, 101, 101, 45, 101, 109, 112, 116, 121]"
  "domain_sep ''ic-hashtree-leaf'' =
     [16, 105, 99, 45, 104, 97, 115, 104, 116, 114, 101, 101, 45, 108, 101, 97, 102]"
  "domain_sep ''ic-hashtree-labeled'' =
     [19, 105, 99, 45, 104, 97, 115, 104, 116, 114, 101, 101, 45, 108, 97, 98, 101, 108, 101, 100]"
  "domain_sep ''ic-hashtree-fork'' =
     [16, 105, 99, 45, 104, 97, 115, 104, 116, 114, 101, 101, 45, 102, 111, 114, 107]"
  "domain_sep ''ic-state-root'' =
     [13, 105, 99, 45, 115, 116, 97, 116, 101, 45, 114, 111, 111, 116]"
  by (simp_all add: domain_sep_def TextEncoder_encode_def utf8_unit_def concat_bufs_def)

text \<open>
  C3. For every hash function and every tree, \<open>reconstruct\<close> is: the hash of the
  domain separator of \<open>ic-hashtree-empty\<close> for \<open>Empty\<close>; the hash of the separator of
  \<open>ic-hashtree-leaf\<close> followed by the contents for a leaf; the hash of the separator of
  \<open>ic-hashtree-labeled\<close>, the label and the subtree's hash for a labelled node; the hash
  of the separator of \<open>ic-hashtree-fork\<close> and the two children's hashes for a fork; and
  the stored digest itself for a pruned node. The separators are written out as bytes:
  one length byte, then the tag's UTF-8 bytes.
\<close>

theorem reconstruct_cases:
  "reconstruct H Empty =
     H [17, 105, 99, 45, 104, 97, 115, 104, 116, 114, 101, 101, 45, 101, 109, 112, 116, 121]
   \<and> reconstruct H (Leaf b) =
     H ([16, 105, 99, 45, 104, 97, 115, 104, 116, 114, 101, 101, 45, 108, 101, 97, 102] @ b)
   \<and> reconstruct H (Labeled l sub) =
     H ([19, 105, 99, 45, 104, 97, 115, 104, 116, 114, 101, 101, 45, 108, 97, 98, 101, 108, 101, 100]
        @ l @ reconstruct H sub)
   \<and> reconstruct H (Fork left right) =
     H ([16, 105, 99, 45, 104, 97, 115, 104, 116, 114, 101, 101, 45, 102, 111, 114, 107]
        @ reconstruct H left @ reconstruct H right)
   \<and> reconstruct H (Pruned d) = d
   \<and> domain_sep s = word_of_nat (length s) # TextEncoder_encode s"
  by (simp add: domain_sep_tags hash_def concat_bufs_def) (simp add: domain_sep_def concat_bufs_def)

theorem reconstruct_cases_witness:
  "reconstruct (\<lambda>x. x) (Leaf [1, 2, 3]) =
     [16, 105, 99, 45, 104, 97, 115, 104, 116, 114, 101, 101, 45, 108, 101, 97, 102, 1, 2, 3]
   \<and> reconstruct (\<lambda>x. x) (Fork (Pruned [7, 7]) (Pruned [8])) =
     [16, 105, 99, 45, 104, 97, 115, 104, 116, 114, 101, 101, 45, 102, 111, 114, 107, 7, 7, 8]
   \<and> domain_sep ''ic-state-root'' =
     [13, 105, 99, 45, 115, 116, 97, 116, 101, 45, 114, 111, 111, 116]"
  using reconstruct_cases [where H = "\<lambda>x. x" and b = "[1, 2, 3]" and left = "Pruned [7, 7]"
      and right = "Pruned [8]" and s = "''ic-state-root''"]
  by (simp add: TextEncoder_encode_def utf8_unit_def)

subsection \<open>Label search\<close>

lemma isBufferGreaterThan_iff:
  "isBufferGreaterThan a b \<longleftrightarrow> (\<exists>i. i < length a \<and> i < length b \<and> a ! i > b ! i)"
proof (induction a b rule: isBufferGreaterThan.induct)
  case (1 b)
  then show ?case by simp
next
  case (2 x a)
  then show ?case by simp
next
  case (3 x a y b)
  show ?case
  proof (cases "x > y")
    case True
    then have "0 < length (x # a) \<and> 0 < length (y # b) \<and> (x # a) ! 0 > (y # b) ! 0" by simp
    then show ?thesis using True by (metis isBufferGreaterThan.simps(3))
  next
    case False
    have "(\<exists>i. i < length (x # a) \<and> i < length (y # b) \<and> (y # b) ! i < (x # a) ! i)
        \<longleftrightarrow> (\<exists>i. i < length a \<and> i < length b \<and> b ! i < a ! i)"
      (is "?L \<longleftrightarrow> ?R")
    proof
      assume ?L
      then obtain i where i: "i < length (x # a)" "i < length (y # b)" "(y # b) ! i < (x # a) ! i"
        by blast
      with False obtain j where "i = Suc j" by (cases i) auto
      with i show ?R by auto
    next
      assume ?R
      then obtain i where "i < length a" "i < length b" "b ! i < a ! i" by blast
      then have "Suc i < length (x # a) \<and> Suc i < length (y # b) \<and> (y # b) ! Suc i < (x # a) ! Suc i"
        by simp
      then show ?L by blast
    qed
    with False 3 show ?thesis by simp
  qed
qed

lemma isBufferGreaterThan_refl: "\<not> isBufferGreaterThan a a"
  by (simp add: isBufferGreaterThan_iff)

lemma find_label_equal: "find_label l (Labeled l t) = LFound t"
  by (simp add: isBufferGreaterThan_refl bufEquals_def)

text \<open>
  C1. At a labelled node the search is specified to answer "greater" exactly when the
  query label is greater than the node's label in byte-lexicographic order with ties
  broken by length. The code's comparison is positional and decides otherwise on two
  inputs: the query \<open>00 05\<close> against the label \<open>01 00\<close> is lexicographically
  smaller and yet answers "greater", and the query \<open>61 62\<close> against its proper
  prefix \<open>61\<close> is lexicographically greater and yet answers "less".
\<close>

theorem find_label_positional_compare:
  "find_label [0, 5] (Labeled [1, 0] Empty) = Greater \<and> \<not> lexGreaterSpec [0, 5] [1, 0]
   \<and> find_label [97, 98] (Labeled [97] Empty) = Less \<and> lexGreaterSpec [97, 98] [97]"
  by (simp add: bufEquals_def)

text \<open>
  C2. At a fork, when the left search answers "greater" the result is Absent if the
  right search answers "less" and the right result otherwise; when the left search
  answers Unknown the result is Unknown if the right search answers "less" and the right
  result otherwise. A pruned node answers Unknown; an empty node and a leaf answer
  Absent. \<open>lookup_path\<close> turns a "greater" or "less" of the first segment into Absent.
  On the two example trees, looking up \<open>b\<close> is Absent under two labelled bounds and
  Unknown when the left side is pruned, and looking up \<open>d\<close> is Absent on both.
\<close>

theorem find_label_fork:
  "(find_label lab l = Greater \<longrightarrow>
      find_label lab (Fork l r) = (if find_label lab r = Less then LAbsent else find_label lab r))
   \<and> (find_label lab l = LUnknown \<longrightarrow>
      find_label lab (Fork l r) = (if find_label lab r = Less then LUnknown else find_label lab r))
   \<and> find_label lab (Pruned h) = LUnknown
   \<and> find_label lab Empty = LAbsent
   \<and> find_label lab (Leaf b) = LAbsent
   \<and> (find_label (label_of seg) t = Greater \<or> find_label (label_of seg) t = Less \<longrightarrow>
        lookup_path (seg # rest) t = Absent)
   \<and> lookup_path [Str ''b''] (Fork (Labeled (TextEncoder_encode ''a'') (Leaf x))
                                  (Labeled (TextEncoder_encode ''c'') (Leaf y))) = Absent
   \<and> lookup_path [Str ''b''] (Fork (Pruned h) (Labeled (TextEncoder_encode ''c'') (Leaf y))) = Unknown
   \<and> lookup_path [Str ''d''] (Fork (Labeled (TextEncoder_encode ''a'') (Leaf x))
                                  (Labeled (TextEncoder_encode ''c'') (Leaf y))) = Absent
   \<and> lookup_path [Str ''d''] (Fork (Pruned h) (Labeled (TextEncoder_encode ''c'') (Leaf y))) = Absent"
  by (auto simp: TextEncoder_encode_def utf8_unit_def bufEquals_def split: LabelLookupResult.splits)

theorem find_label_fork_witness:
  "find_label [98] (Labeled [97] (Leaf [1])) = Greater
   \<and> find_label [98] (Labeled [99] (Leaf [2])) = Less
   \<and> find_label [98] (Fork (Labeled [97] (Leaf [1])) (Labeled [99] (Leaf [2]))) = LAbsent
   \<and> find_label [98] (Pruned [0]) = LUnknown
   \<and> find_label [98] (Fork (Pruned [0]) (Labeled [99] (Leaf [2]))) = LUnknown
   \<and> find_label (label_of (Str ''d'')) (Fork (Pruned [0]) (Labeled [99] (Leaf [2]))) = Greater
   \<and> lookup_path [Str ''d''] (Fork (Pruned [0]) (Labeled [99] (Leaf [2]))) = Absent"
  using find_label_fork [where lab = "[98]" and l = "Labeled [97] (Leaf [1])"
      and r = "Labeled [99] (Leaf [2])" and seg = "Str ''d''" and rest = "[]"
      and t = "Fork (Pruned [0]) (Labeled [99] (Leaf [2]))"]
    find_label_fork [where lab = "[98]" and l = "Pruned [0]" and r = "Labeled [99] (Leaf [2])"]
  by (simp add: TextEncoder_encode_def utf8_unit_def bufEquals_def)

subsection \<open>DER unwrapping\<close>

text \<open>
  C6. \<open>extractDER\<close> returns the bytes after the prefix exactly when the buffer is 133
  bytes long and starts with the 37 bytes of the BLS12-381 G2 prefix; the result then
  has 96 bytes. Any other length fails with the length error, and a buffer of the right
  length with another prefix fails with the prefix error.
\<close>

theorem extractDER_iff:
  "extractDER buf =
     (if length buf = 133 \<and>
         take 37 buf =
           [0x30, 0x81, 0x82, 0x30, 0x1d, 0x06, 0x0d, 0x2b, 0x06, 0x01, 0x04, 0x01, 0x82, 0xdc,
            0x7c, 0x05, 0x03, 0x01, 0x02, 0x01, 0x06, 0x0c, 0x2b, 0x06, 0x01, 0x04, 0x01, 0x82,
            0xdc, 0x7c, 0x05, 0x03, 0x02, 0x01, 0x03, 0x61, 0x00]
      then Inr (drop 37 buf)
      else if length buf \<noteq> 133 then Inl (DerWrongLength 133)
      else Inl (DerWrongPrefix (take 37 buf)))
   \<and> (\<forall>key. extractDER buf = Inr key \<longrightarrow> length key = 96 \<and> buf = DER_PREFIX @ key)"
proof -
  have "extractDER buf = Inr key \<Longrightarrow> length key = 96 \<and> buf = DER_PREFIX @ key" for key
    unfolding extractDER_def Let_def bufEquals_def KEY_LENGTH_def length_DER_PREFIX
    by (auto split: if_splits) (metis append_take_drop_id)
  moreover have "extractDER buf =
     (if length buf = 133 \<and> take 37 buf = DER_PREFIX
      then Inr (drop 37 buf)
      else if length buf \<noteq> 133 then Inl (DerWrongLength 133)
      else Inl (DerWrongPrefix (take 37 buf)))"
    unfolding extractDER_def Let_def bufEquals_def KEY_LENGTH_def length_DER_PREFIX
    by simp
  ultimately show ?thesis unfolding DER_PREFIX_bytes by blast
qed

theorem extractDER_iff_witness:
  "extractDER (DER_PREFIX @ replicate 96 7) = Inr (replicate 96 7)
   \<and> extractDER (DER_PREFIX @ replicate 95 7) = Inl (DerWrongLength 133)
   \<and> extractDER (0 # drop 1 DER_PREFIX @ replicate 96 7)
       = Inl (DerWrongPrefix (0 # drop 1 DER_PREFIX))"
proof -
  have "extractDER (DER_PREFIX @ replicate 96 7) = Inr (replicate 96 7)"
    using extractDER_iff [of "DER_PREFIX @ replicate 96 7", folded DER_PREFIX_bytes]
    by (simp add: length_DER_PREFIX)
  moreover have "extractDER (DER_PREFIX @ replicate 95 7) = Inl (DerWrongLength 133)"
    using extractDER_iff [of "DER_PREFIX @ replicate 95 7", folded DER_PREFIX_bytes]
    by (simp add: length_DER_PREFIX)
  moreover have "extractDER (0 # drop 1 DER_PREFIX @ replicate 96 7)
       = Inl (DerWrongPrefix (0 # drop 1 DER_PREFIX))"
    using extractDER_iff [of "0 # drop 1 DER_PREFIX @ replicate 96 7"]
    by (simp add: length_DER_PREFIX)
  ultimately show ?thesis by blast
qed

section \<open>Properties of certificate verification\<close>

lemma extractDER_example_key: "extractDER example_key = Inr (replicate 96 1)"
  by (simp add: extractDER_def example_key_def length_DER_PREFIX KEY_LENGTH_def bufEquals_def)


text \<open>
  C4. When a certificate carries a delegation and the delegation's certificate decodes
  to a certificate that itself carries a delegation, verification fails with the
  nested-delegation error, and so does the resolution of the key: no key comes out of
  the inner certificate.
\<close>

theorem nested_delegation_rejected:
  assumes "delegation (cert this) = Some d"
    and "cborDecodeCert env (certificate d) = Some inner"
    and "delegation inner = Some d'"
  shows "verify env this = Inl (CertificateVerificationError NestedDelegation)
         \<and> checkDelegationAndGetKey env this (delegation (cert this))
             = Inl (CertificateVerificationError NestedDelegation)"
  using assms by (simp add: verify.simps createUnverified_def)

theorem nested_delegation_rejected_witness:
  "verify example_env
     ((example_certificate example_key Empty False)
        \<lparr> cert := \<lparr> tree = Empty, signature = [],
                    delegation = Some \<lparr> subnet_id = [], certificate = [] \<rparr> \<rparr> \<rparr>)
   = Inl (CertificateVerificationError NestedDelegation)"
  using nested_delegation_rejected
    [where env = example_env
       and this = "(example_certificate example_key Empty False)
        \<lparr> cert := \<lparr> tree = Empty, signature = [],
                    delegation = Some \<lparr> subnet_id = [], certificate = [] \<rparr> \<rparr> \<rparr>"
       and d = "\<lparr> subnet_id = [], certificate = [] \<rparr>"
       and inner = "\<lparr> tree = Empty, signature = [],
                      delegation = Some \<lparr> subnet_id = [], certificate = [] \<rparr> \<rparr>"
       and d' = "\<lparr> subnet_id = [], certificate = [] \<rparr>"]
  by (simp add: example_env_def example_certificate_def)

lemma verify_key_failed:
  assumes "checkDelegationAndGetKey env this (delegation (cert this)) = Inl e"
  shows "verify env this = Inl e"
  using assms by (simp add: verify.simps)

lemma verify_unwrap_failed:
  assumes "checkDelegationAndGetKey env this (delegation (cert this)) = Inr derKey"
    and "extractDER derKey = Inl e"
  shows "verify env this = Inl (TypeError e)"
  using assms by (simp add: verify.simps)

lemma verify_resolved:
  assumes "checkDelegationAndGetKey env this (delegation (cert this)) = Inr derKey"
    and "extractDER derKey = Inr key"
  shows "verify env this =
     (case lookupResultToBuffer (lookup this [Str ''time'']) of
        None \<Rightarrow> Inl (CertificateVerificationError NoTime)
      | Some lookupTime \<Rightarrow>
          (case (if disableTimeVerification this then Inr ()
                 else (case decodeTime env lookupTime of
                         None \<Rightarrow> Inl DecodeTimeFailed
                       | Some certTime \<Rightarrow>
                           if num_less (getTime certTime)
                                (num_minus (dateNow env)
                                   (num_times (num_times (maxAgeInMinutes this) 60) 1000))
                           then Inl (CertificateVerificationError SignedInPast)
                           else if num_less (Num (dateNow env + 300000)) (getTime certTime)
                           then Inl (CertificateVerificationError SignedInFuture)
                           else Inr ())) of
             Inl e \<Rightarrow> Inl e
           | Inr u \<Rightarrow>
               if blsVerify this key (signature (cert this))
                    (concat_bufs [domain_sep ''ic-state-root'',
                                  reconstruct (sha env) (tree (cert this))]) = Some True
               then Inr ()
               else Inl (CertificateVerificationError SignatureFailed)))"
  using assms by (auto simp: verify.simps Let_def split: option.splits)

lemma example_certificate_key:
  "checkDelegationAndGetKey env (example_certificate k t b)
     (delegation (cert (example_certificate k t b))) = Inr k"
  by (simp add: example_certificate_def)

text \<open>
  C10, counterexample. The key is resolved and unwrapped before the time is looked up,
  so a certificate without a time whose root key is not a 133-byte DER key fails with
  the DER length error, not with the missing-time error.
\<close>

theorem missing_time_counterexample:
  "lookupResultToBuffer (lookup (example_certificate [] Empty True) [Str ''time'']) = None
   \<and> verify example_env (example_certificate [] Empty True) = Inl (TypeError (DerWrongLength 133))"
  by (simp add: verify.simps example_certificate_def lookup_def extractDER_def
      length_DER_PREFIX KEY_LENGTH_def)

text \<open>
  C10. A certificate whose tree has no byte-string value at the path \<open>time\<close> never
  verifies, whatever \<open>disableTimeVerification\<close> is. Its failure is that of the first
  step that fails: the error of the key resolution when that fails, else the
  \<open>TypeError\<close> of the DER unwrapping when that fails, else the missing-time error.
\<close>

theorem missing_time_rejected:
  assumes "lookupResultToBuffer (lookup this [Str ''time'']) = None"
  shows "(\<forall>u. verify env this \<noteq> Inr u)
         \<and> (\<forall>e. checkDelegationAndGetKey env this (delegation (cert this)) = Inl e
               \<longrightarrow> verify env this = Inl e)
         \<and> (\<forall>derKey e.
               checkDelegationAndGetKey env this (delegation (cert this)) = Inr derKey
               \<and> extractDER derKey = Inl e
               \<longrightarrow> verify env this = Inl (TypeError e))
         \<and> (\<forall>derKey key.
               checkDelegationAndGetKey env this (delegation (cert this)) = Inr derKey
               \<and> extractDER derKey = Inr key
               \<longrightarrow> verify env this = Inl (CertificateVerificationError NoTime))"
proof -
  have a: "verify env this = Inl (CertificateVerificationError NoTime)"
    if "checkDelegationAndGetKey env this (delegation (cert this)) = Inr derKey"
      and "extractDER derKey = Inr key" for derKey key
    using verify_resolved [OF that] assms by simp
  have "verify env this \<noteq> Inr u" for u
  proof (cases "checkDelegationAndGetKey env this (delegation (cert this))")
    case (Inl e)
    then show ?thesis by (simp add: verify_key_failed)
  next
    case (Inr derKey)
    show ?thesis
    proof (cases "extractDER derKey")
      case (Inl e)
      with Inr show ?thesis by (simp add: verify_unwrap_failed)
    next
      case r: (Inr key)
      from a [OF Inr r] show ?thesis by simp
    qed
  qed
  with a verify_key_failed verify_unwrap_failed show ?thesis by blast
qed

theorem missing_time_rejected_witness:
  "lookupResultToBuffer (lookup (example_certificate example_key Empty True) [Str ''time'']) = None
   \<and> disableTimeVerification (example_certificate example_key Empty True)
   \<and> verify example_env (example_certificate example_key Empty True)
       = Inl (CertificateVerificationError NoTime)
   \<and> lookupResultToBuffer (lookup (example_certificate [1, 2, 3] Empty False) [Str ''time''])
       = None
   \<and> verify example_env (example_certificate [1, 2, 3] Empty False)
       = Inl (TypeError (DerWrongLength 133))"
proof -
  have l: "lookupResultToBuffer (lookup (example_certificate k Empty b) [Str ''time'']) = None"
    for k b
    by (simp add: lookup_def example_certificate_def)
  have x: "extractDER [1, 2, 3] = Inl (DerWrongLength 133)"
    by (simp add: extractDER_def length_DER_PREFIX KEY_LENGTH_def)
  from missing_time_rejected [OF l [of example_key True], of example_env]
    example_certificate_key extractDER_example_key
  have "verify example_env (example_certificate example_key Empty True)
       = Inl (CertificateVerificationError NoTime)"
    by blast
  moreover from missing_time_rejected [OF l [of "[1, 2, 3]" False], of example_env]
    example_certificate_key x
  have "verify example_env (example_certificate [1, 2, 3] Empty False)
       = Inl (TypeError (DerWrongLength 133))"
    by blast
  ultimately show ?thesis using l by (simp add: example_certificate_def)
qed






text \<open>
  The two one-nanosecond bounds cannot both hold for a date in whole milliseconds: no
  monotone conversion \<open>f\<close> from nanoseconds to milliseconds puts every
  \<open>x ms + 1 ns\<close> above \<open>x\<close> (too new at the upper bound \<open>x\<close>) and every \<open>y ms - 1 ns\<close>
  below \<open>y\<close> (too old at the lower bound \<open>y\<close>).
\<close>

lemma no_monotone_rounding:
  fixes f :: "int \<Rightarrow> int"
  assumes "mono f"
  shows "\<not> ((\<forall>x. x < f (x * 1000000 + 1)) \<and> (\<forall>y. f (y * 1000000 - 1) < y))"
proof
  assume h: "(\<forall>x. x < f (x * 1000000 + 1)) \<and> (\<forall>y. f (y * 1000000 - 1) < y)"
  then have "0 < f (0 * 1000000 + 1)" by blast
  then have a: "0 < f 1" by simp
  from h have "f (1 * 1000000 - 1) < 1" by blast
  then have b: "f 999999 < 1" by simp
  from assms have "f 1 \<le> f 999999" by (rule monoD) simp
  with a b show False by simp
qed

section \<open>Properties of the representation-independent hash\<close>









lemma lebEncode_small: "n < 128 \<Longrightarrow> lebEncode n = [of_nat n]"
  by (simp add: lebEncode.simps)



text \<open>
  \<open>hashValue\<close> tries its tests in this order: a tagged wrapper is unwrapped, whatever
  else the object is; then text, number, bytes, sequence (the hash of the concatenated
  element hashes, each element hashed in turn), principal, hashable projection, mapping,
  and big integer last. Of the values that pass no test, \<open>undefined\<close>, a boolean and a
  function raise the unsupported-type error, which carries the value; a symbol raises
  the \<open>TypeError\<close> of its conversion to a string.
\<close>

lemma hashValue_detection_order:
  "hashValue H (JObject (Some inner) bf el pr th en) = hashValue H inner
   \<and> hashValue H (JString s) = Inr (H (TextEncoder_encode s))
   \<and> hashValue H (JNumber n) = Inr (H (lebEncode n))
   \<and> hashValue H (JObject None (Some b) el pr th en) = Inr (H b)
   \<and> hashValue H (JObject None None (Some vals) pr th en) =
       (case hashValues H vals of Inl e \<Rightarrow> Inl e | Inr hs \<Rightarrow> Inr (H (concat hs)))
   \<and> (\<forall>hs. hashValues H vals = Inr hs \<longleftrightarrow>
             (length hs = length vals \<and> (\<forall>i < length vals. hashValue H (vals ! i) = Inr (hs ! i))))
   \<and> hashValue H (JObject None None None (Some p) th en) = Inr (H p)
   \<and> hashValue H (JObject None None None None (Some projection) en) = hashValue H projection
   \<and> hashValue H (JObject None None None None None en) = hashOfMap H en
   \<and> hashValue H (JBigInt n) = Inr (H (lebEncode n))
   \<and> hashValue H JUndefined = Inl (UnsupportedType JUndefined)
   \<and> hashValue H (JBoolean t) = Inl (UnsupportedType (JBoolean t))
   \<and> hashValue H JSymbol = Inl SymbolToString
   \<and> hashValue H JFunction = Inl (UnsupportedType JFunction)"
proof -
  have "hashValues H vals = Inr hs \<longleftrightarrow>
          (length hs = length vals \<and> (\<forall>i < length vals. hashValue H (vals ! i) = Inr (hs ! i)))"
    for hs
  proof (induction vals arbitrary: hs)
    case Nil
    then show ?case by auto
  next
    case (Cons v vs)
    show ?case
    proof (cases hs)
      case Nil
      then show ?thesis by (auto split: sum.splits)
    next
      case (Cons h hs')
      with Cons.IH [of hs'] show ?thesis
        by (auto simp: less_Suc_eq_0_disj split: sum.splits)
    qed
  qed
  moreover have "hashValue H (JObject None None (Some vals) pr th en) =
       (case hashValues H vals of Inl e \<Rightarrow> Inl e | Inr hs \<Rightarrow> Inr (H (concat hs)))"
    by (simp add: hash_def concat_bufs_def split: sum.split)
  ultimately show ?thesis
    by (simp add: hashString_def hash_def del: hashOfMap.simps hashValue.simps(5))
qed

lemma hashValue_detection_order_example:
  "hashValue (\<lambda>x. x) (JObject (Some (JString ''a'')) (Some [1]) (Some []) (Some [2])
       (Some (JNumber 3)) [(''k'', JNumber 4)]) = Inr [97]
   \<and> hashValue (\<lambda>x. x) (JObject None (Some [1]) (Some []) (Some [2]) (Some (JNumber 3))
       [(''k'', JNumber 4)]) = Inr [1]
   \<and> hashValue (\<lambda>x. x) (JObject None None (Some [JString ''a'', JNumber 3]) (Some [2])
       (Some (JNumber 3)) [(''k'', JNumber 4)]) = Inr [97, 3]
   \<and> hashValue (\<lambda>x. x) (JObject None None None (Some [2]) (Some (JNumber 3))
       [(''k'', JNumber 4)]) = Inr [2]
   \<and> hashValue (\<lambda>x. x) (JObject None None None None (Some (JNumber 3))
       [(''k'', JNumber 4)]) = Inr [3]
   \<and> hashValue (\<lambda>x. x) (JObject None None None None None [(''k'', JNumber 4)]) = Inr [107, 4]
   \<and> hashValue (\<lambda>x. x) (JBoolean True) = Inl (UnsupportedType (JBoolean True))"
proof -
  have m: "hashOfMap (\<lambda>x. x) [(''k'', JNumber 4)] = Inr [107, 4]"
    by (simp add: hashString_def hash_def TextEncoder_encode_def utf8_unit_def
        lebEncode_small array_sort_def concat_bufs_def)
  show ?thesis
    using hashValue_detection_order [where H = "\<lambda>x. x" and en = "[(''k'', JNumber 4)]"
        and th = "Some (JNumber 3)" and inner = "JString ''a''" and s = "''a''" and n = 3
        and b = "[1]" and p = "[2]" and vals = "[JString ''a'', JNumber 3]"
        and projection = "JNumber 3" and t = True]
    by (simp add: m hashString_def hash_def TextEncoder_encode_def utf8_unit_def lebEncode_small
        concat_bufs_def del: hashOfMap.simps)
qed

text \<open>
  C8. A value that passes none of the tests is to raise the unsupported-type error that
  carries the value. A symbol passes none of them, and the code does not get that far:
  the message of the error is a template literal, the conversion of the symbol to a
  string throws a \<open>TypeError\<close> there, and no error carrying the symbol is raised.
\<close>

theorem hashValue_symbol_type_error:
  "hashValue H JSymbol = Inl SymbolToString
   \<and> hashValue H JSymbol \<noteq> Inl (UnsupportedType JSymbol)"
  by simp

section \<open>Properties of polling\<close>


















end
